theory Spec2Isabelle
  imports Main "HOL-Library.Word"
begin

section \<open>Values, errors and the record of collaborator calls\<close>

text \<open>
  Python \<open>bytes\<close> are lists of 8-bit words. The exceptions the two modules can raise are
  values of \<open>error\<close>; an operation returns \<open>error + 'a\<close> with \<open>Inl\<close> for a raised
  exception. \<open>External\<close> stands for whatever a collaborator outside the two modules raises.
\<close>

type_synonym bytes = "8 word list"

datatype error =
    IndexError
  | KeyError
  | TypeError
  | AttributeError
  | FileNotFoundError
  | FileExistsError
  | NotADirectoryError
  | External string

text \<open>
  Modelled from the spec: the enumeration \<open>SupportedPdfParseMethod\<close> is declared in
  \<open>magic_pdf.config.enums\<close>, which is not among the sources. The spec gives it the two
  methods OCR and text extraction; \<open>dataset.py\<close> names them \<open>OCR\<close> and \<open>TXT\<close>.
\<close>

datatype SupportedPdfParseMethod = OCR | TXT

text \<open>
  Modelled from the spec: the enumerations \<open>MakeMode\<close> and \<open>DropMode\<close> are declared in
  \<open>magic_pdf.config.make_content_config\<close>, which is not among the sources. The spec
  gives the render modes multimedia-annotated, plain and standard structured, and the
  drop policies whole document, offending pages only and no drop; \<open>operators.py\<close> names
  \<open>MM_MD\<close>, \<open>STANDARD_FORMAT\<close>, \<open>WHOLE_PDF\<close> and \<open>NONE\<close>.
\<close>

datatype MakeMode = MM_MD | NLP_MD | STANDARD_FORMAT

datatype DropMode = WHOLE_PDF | SINGLE_PAGE | NONE

text \<open>
  Python values as far as the analysis result needs them: \<open>None\<close>, booleans, integers,
  strings, lists and dictionaries with string keys (an association list in insertion
  order, each key once).
\<close>

datatype pyval =
    PNone
  | PBool bool
  | PInt int
  | PStr string
  | PList "pyval list"
  | PDict "(string \<times> pyval) list"

text \<open>
  \<open>xs[i]\<close> on a Python list with an integer index: a negative index counts from the end,
  and an index that is still out of range afterwards raises \<open>IndexError\<close>.
\<close>

definition list_getitem :: "'a list \<Rightarrow> int \<Rightarrow> error + 'a" where
  "list_getitem xs i =
     (if 0 \<le> i then
        (if i < int (length xs) then Inr (xs ! nat i) else Inl IndexError)
      else
        (if 0 \<le> i + int (length xs) then Inr (xs ! nat (i + int (length xs)))
         else Inl IndexError))"

text \<open>
  \<open>v[key]\<close> with a string key: a dictionary looks the key up and raises \<open>KeyError\<close>
  when it is missing; every other value raises \<open>TypeError\<close>.
\<close>

fun getitem_str :: "pyval \<Rightarrow> string \<Rightarrow> error + pyval" where
  "getitem_str (PDict kvs) key =
     (case map_of kvs key of None \<Rightarrow> Inl KeyError | Some v \<Rightarrow> Inr v)"
| "getitem_str _ key = Inl TypeError"

text \<open>
  The world outside the two modules: \<open>fs\<close> is the file system, a table from path
  strings to the kind of node found there (a table that knows absolute paths lists the
  root), and \<open>log\<close> records the calls into the collaborators, in the order they are
  made, each with its arguments.
\<close>

datatype node = File | Dir

type_synonym filesystem = "string \<Rightarrow> node option"

datatype call =
    Classify bytes
  | UnionMake pyval MakeMode DropMode string
  | WriteString string pyval
  | DrawLayoutBbox pyval bytes string string
  | DrawSpanBbox pyval bytes string string
  | DrawLineSortBbox pyval bytes string string
  | CompressJson

record world =
  fs :: filesystem
  log :: "call list"

section \<open>\<open>magic_pdf/data/dataset.py\<close>\<close>

subsection \<open>The page handle \<open>Doc\<close>\<close>

text \<open>
  A \<open>Doc\<close> holds one \<open>fitz.Page\<close> in its field \<open>_doc\<close>. The page type \<open>'p\<close> is left
  open; its attributes are given by a table \<open>attrs :: 'p \<Rightarrow> string \<Rightarrow> 'v option\<close>, so that
  \<open>hasattr(page, name)\<close> is \<open>attrs page name \<noteq> None\<close>.
\<close>

datatype 'p Doc = Doc (get_doc: 'p)

definition hasattr :: "('p \<Rightarrow> string \<Rightarrow> 'v option) \<Rightarrow> 'p \<Rightarrow> string \<Rightarrow> bool" where
  "hasattr attrs page name = (attrs page name \<noteq> None)"

definition getattr :: "('p \<Rightarrow> string \<Rightarrow> 'v option) \<Rightarrow> 'p \<Rightarrow> string \<Rightarrow> error + 'v" where
  "getattr attrs page name =
     (case attrs page name of None \<Rightarrow> Inl AttributeError | Some v \<Rightarrow> Inr v)"

text \<open>
  What an attribute lookup on a \<open>Doc\<close> can yield: the field \<open>_doc\<close>, a method of the
  class, a name every Python object inherits, a value forwarded from the page, or
  \<open>None\<close>.
\<close>

datatype ('p, 'v) attr_value =
    NoneValue
  | Forwarded 'v
  | Field 'p
  | BoundMethod string
  | Inherited string

text \<open>
  \<open>Doc.__getattr__\<close>: return the page's attribute when the page has it; otherwise the
  body ends without a \<open>return\<close>, which yields \<open>None\<close>.
\<close>

definition Doc_getattr_hook ::
  "('p \<Rightarrow> string \<Rightarrow> 'v option) \<Rightarrow> 'p Doc \<Rightarrow> string \<Rightarrow> error + ('p, 'v) attr_value" where
  "Doc_getattr_hook attrs self name =
     (if hasattr attrs (get_doc self) name then
        (case getattr attrs (get_doc self) name of
           Inl e \<Rightarrow> Inl e
         | Inr v \<Rightarrow> Inr (Forwarded v))
      else Inr NoneValue)"

text \<open>The methods class \<open>Doc\<close> defines.\<close>

definition Doc_methods :: "string list" where
  "Doc_methods =
     [''__init__'', ''get_image'', ''get_doc'', ''get_page_info'', ''__getattr__'',
      ''draw_rect'', ''insert_text'']"

text \<open>
  \<open>handle.name\<close>: Python first looks the name up on the instance and its classes, and
  calls \<open>__getattr__\<close> only when that fails. The names a class inherits from \<open>object\<close>
  and \<open>ABC\<close> are the parameter \<open>base\<close>.
\<close>

definition Doc_lookup ::
  "string list \<Rightarrow> ('p \<Rightarrow> string \<Rightarrow> 'v option) \<Rightarrow> 'p Doc \<Rightarrow> string
     \<Rightarrow> error + ('p, 'v) attr_value" where
  "Doc_lookup base attrs self name =
     (if name = ''_doc'' then Inr (Field (get_doc self))
      else if name \<in> set Doc_methods then Inr (BoundMethod name)
      else if name \<in> set base then Inr (Inherited name)
      else Doc_getattr_hook attrs self name)"

subsection \<open>The rendering library\<close>

text \<open>
  The calls \<open>dataset.py\<close> makes into \<open>fitz\<close>: \<open>fitz.open('pdf', bits)\<close>,
  \<open>fitz.open(stream=bits)\<close>, \<open>doc.convert_to_pdf()\<close> and the iteration over a document's
  pages. Opening and converting can raise.
\<close>

record ('d, 'p) fitz =
  open_pdf :: "bytes \<Rightarrow> error + 'd"
  open_stream :: "bytes \<Rightarrow> error + 'd"
  convert_to_pdf :: "'d \<Rightarrow> error + bytes"
  pages :: "'d \<Rightarrow> 'p list"

subsection \<open>The two dataset classes\<close>

text \<open>
  Both classes have the same four fields: \<open>_raw_fitz\<close>, \<open>_records\<close>, \<open>_data_bits\<close>
  and \<open>_raw_data\<close>.
\<close>

record ('d, 'p) dataset_fields =
  raw_fitz :: 'd
  records :: "'p Doc list"
  data_bits_field :: bytes
  raw_data :: bytes

datatype ('d, 'p) Dataset =
    PymuDocDataset "('d, 'p) dataset_fields"
  | ImageDataset "('d, 'p) dataset_fields"

text \<open>
  The two constructors. \<open>PymuDocDataset\<close> opens the bytes as a PDF and keeps them as
  \<open>_data_bits\<close>; \<open>ImageDataset\<close> opens the bytes as an image, converts the image to
  PDF bytes, opens those, and keeps the converted bytes as \<open>_data_bits\<close> and the input
  as \<open>_raw_data\<close>. Each wraps every page of the opened document in a \<open>Doc\<close>.
\<close>

definition PymuDocDataset_init ::
  "('d, 'p) fitz \<Rightarrow> bytes \<Rightarrow> error + ('d, 'p) Dataset" where
  "PymuDocDataset_init fz bits =
     (case open_pdf fz bits of
        Inl e \<Rightarrow> Inl e
      | Inr doc \<Rightarrow>
          Inr (PymuDocDataset
                 \<lparr>raw_fitz = doc, records = map Doc (pages fz doc),
                  data_bits_field = bits, raw_data = bits\<rparr>))"

definition ImageDataset_init ::
  "('d, 'p) fitz \<Rightarrow> bytes \<Rightarrow> error + ('d, 'p) Dataset" where
  "ImageDataset_init fz bits =
     (case open_stream fz bits of
        Inl e \<Rightarrow> Inl e
      | Inr img \<Rightarrow>
          (case convert_to_pdf fz img of
             Inl e \<Rightarrow> Inl e
           | Inr pdf_bytes \<Rightarrow>
               (case open_pdf fz pdf_bytes of
                  Inl e \<Rightarrow> Inl e
                | Inr doc \<Rightarrow>
                    Inr (ImageDataset
                           \<lparr>raw_fitz = doc, records = map Doc (pages fz doc),
                            data_bits_field = pdf_bytes, raw_data = bits\<rparr>))))"

text \<open>The methods of \<open>PymuDocDataset\<close>, on its fields.\<close>

definition PymuDocDataset_len :: "('d, 'p) dataset_fields \<Rightarrow> nat" where
  "PymuDocDataset_len self = length (records self)"

definition PymuDocDataset_supported_methods ::
  "('d, 'p) dataset_fields \<Rightarrow> SupportedPdfParseMethod list" where
  "PymuDocDataset_supported_methods self = [OCR, TXT]"

definition PymuDocDataset_data_bits :: "('d, 'p) dataset_fields \<Rightarrow> bytes" where
  "PymuDocDataset_data_bits self = data_bits_field self"

definition PymuDocDataset_get_page ::
  "('d, 'p) dataset_fields \<Rightarrow> int \<Rightarrow> error + 'p Doc" where
  "PymuDocDataset_get_page self page_id = list_getitem (records self) page_id"

definition PymuDocDataset_classify ::
  "(bytes \<Rightarrow> error + SupportedPdfParseMethod) \<Rightarrow> ('d, 'p) dataset_fields \<Rightarrow> world
     \<Rightarrow> (error + SupportedPdfParseMethod) \<times> world" where
  "PymuDocDataset_classify classify_fn self w =
     (classify_fn (data_bits_field self),
      w\<lparr>log := log w @ [Classify (data_bits_field self)]\<rparr>)"

text \<open>The methods of \<open>ImageDataset\<close>, on its fields.\<close>

definition ImageDataset_len :: "('d, 'p) dataset_fields \<Rightarrow> nat" where
  "ImageDataset_len self = length (records self)"

definition ImageDataset_supported_methods ::
  "('d, 'p) dataset_fields \<Rightarrow> SupportedPdfParseMethod list" where
  "ImageDataset_supported_methods self = [OCR]"

definition ImageDataset_data_bits :: "('d, 'p) dataset_fields \<Rightarrow> bytes" where
  "ImageDataset_data_bits self = data_bits_field self"

definition ImageDataset_get_page ::
  "('d, 'p) dataset_fields \<Rightarrow> int \<Rightarrow> error + 'p Doc" where
  "ImageDataset_get_page self page_id = list_getitem (records self) page_id"

definition ImageDataset_classify ::
  "(bytes \<Rightarrow> error + SupportedPdfParseMethod) \<Rightarrow> ('d, 'p) dataset_fields \<Rightarrow> world
     \<Rightarrow> (error + SupportedPdfParseMethod) \<times> world" where
  "ImageDataset_classify classify_fn self w = (Inr OCR, w)"





text \<open>Method calls on a \<open>Dataset\<close> dispatch on its class.\<close>

fun len :: "('d, 'p) Dataset \<Rightarrow> nat" where
  "len (PymuDocDataset self) = PymuDocDataset_len self"
| "len (ImageDataset self) = ImageDataset_len self"

fun supported_methods :: "('d, 'p) Dataset \<Rightarrow> SupportedPdfParseMethod list" where
  "supported_methods (PymuDocDataset self) = PymuDocDataset_supported_methods self"
| "supported_methods (ImageDataset self) = ImageDataset_supported_methods self"

fun data_bits :: "('d, 'p) Dataset \<Rightarrow> bytes" where
  "data_bits (PymuDocDataset self) = PymuDocDataset_data_bits self"
| "data_bits (ImageDataset self) = ImageDataset_data_bits self"

fun get_page :: "('d, 'p) Dataset \<Rightarrow> int \<Rightarrow> error + 'p Doc" where
  "get_page (PymuDocDataset self) page_id = PymuDocDataset_get_page self page_id"
| "get_page (ImageDataset self) page_id = ImageDataset_get_page self page_id"

fun classify ::
  "(bytes \<Rightarrow> error + SupportedPdfParseMethod) \<Rightarrow> ('d, 'p) Dataset \<Rightarrow> world
     \<Rightarrow> (error + SupportedPdfParseMethod) \<times> world" where
  "classify classify_fn (PymuDocDataset self) w = PymuDocDataset_classify classify_fn self w"
| "classify classify_fn (ImageDataset self) w = ImageDataset_classify classify_fn self w"


text \<open>\<open>__iter__\<close> of either class yields the page handles of \<open>_records\<close> in order.\<close>

fun Dataset_iter :: "('d, 'p) Dataset \<Rightarrow> 'p Doc list" where
  "Dataset_iter (PymuDocDataset self) = records self"
| "Dataset_iter (ImageDataset self) = records self"

section \<open>The file-system calls of the standard library\<close>

text \<open>
  \<open>os.path.split\<close> for POSIX paths: the tail is what follows the last slash, the head
  is what precedes it, with its trailing slashes removed unless it consists of slashes
  only. \<open>os.path.dirname\<close> and \<open>os.path.basename\<close> are its two components.
\<close>

definition sep :: char where
  "sep = CHR ''/''"

definition rstrip_sep :: "string \<Rightarrow> string" where
  "rstrip_sep s = rev (dropWhile (\<lambda>c. c = sep) (rev s))"

definition os_path_split :: "string \<Rightarrow> string \<times> string" where
  "os_path_split p =
     (let head = rev (dropWhile (\<lambda>c. c \<noteq> sep) (rev p));
          tail = rev (takeWhile (\<lambda>c. c \<noteq> sep) (rev p))
      in (if head \<noteq> [] \<and> head \<noteq> replicate (length head) sep then rstrip_sep head else head,
          tail))"

definition os_path_dirname :: "string \<Rightarrow> string" where
  "os_path_dirname p = fst (os_path_split p)"

definition os_path_basename :: "string \<Rightarrow> string" where
  "os_path_basename p = snd (os_path_split p)"

text \<open>
  \<open>os.path.exists\<close> and \<open>os.path.isdir\<close> ask the file system for the node at a path;
  the empty path names no node.
\<close>

definition os_path_exists :: "filesystem \<Rightarrow> string \<Rightarrow> bool" where
  "os_path_exists fsys p = (p \<noteq> [] \<and> fsys p \<noteq> None)"

definition os_path_isdir :: "filesystem \<Rightarrow> string \<Rightarrow> bool" where
  "os_path_isdir fsys p = (p \<noteq> [] \<and> fsys p = Some Dir)"

text \<open>
  \<open>os.mkdir\<close>: the empty path is \<open>FileNotFoundError\<close>, an existing node is
  \<open>FileExistsError\<close>, and the parent must be a directory; a path with no parent
  component is created in the current working directory, which exists.
\<close>

definition os_mkdir :: "filesystem \<Rightarrow> string \<Rightarrow> (error + unit) \<times> filesystem" where
  "os_mkdir fsys name =
     (if name = [] then (Inl FileNotFoundError, fsys)
      else if fsys name \<noteq> None then (Inl FileExistsError, fsys)
      else
        (let parent = os_path_dirname (rstrip_sep name) in
         if parent = [] \<or> fsys parent = Some Dir then (Inr (), fsys(name \<mapsto> Dir))
         else if fsys parent = None then (Inl FileNotFoundError, fsys)
         else (Inl NotADirectoryError, fsys)))"

text \<open>
  \<open>os.makedirs(name, exist_ok=True)\<close>, as the standard library writes it: split the
  name (twice when it ends in a slash), create the head recursively when it is missing,
  then \<open>mkdir\<close> the name itself, and let an error of that \<open>mkdir\<close> pass only when the
  name is a directory by then.
\<close>

definition makedirs_split :: "string \<Rightarrow> string \<times> string" where
  "makedirs_split name =
     (if snd (os_path_split name) = [] then os_path_split (fst (os_path_split name))
      else os_path_split name)"

definition mkdir_exist_ok :: "filesystem \<Rightarrow> string \<Rightarrow> (error + unit) \<times> filesystem" where
  "mkdir_exist_ok fsys name =
     (case os_mkdir fsys name of
        (Inl e, fsys') \<Rightarrow>
          if \<not> os_path_isdir fsys' name then (Inl e, fsys') else (Inr (), fsys')
      | (Inr u, fsys') \<Rightarrow> (Inr u, fsys'))"

function os_makedirs :: "filesystem \<Rightarrow> string \<Rightarrow> (error + unit) \<times> filesystem" where
  "os_makedirs fsys name =
     (if fst (makedirs_split name) \<noteq> [] \<and> snd (makedirs_split name) \<noteq> []
         \<and> \<not> os_path_exists fsys (fst (makedirs_split name))
      then
        (case os_makedirs fsys (fst (makedirs_split name)) of
           (Inl e, fsys') \<Rightarrow>
             if e = FileExistsError then
               (if snd (makedirs_split name) = ''.'' then (Inr (), fsys')
                else mkdir_exist_ok fsys' name)
             else (Inl e, fsys')
         | (Inr u, fsys') \<Rightarrow>
             if snd (makedirs_split name) = ''.'' then (Inr (), fsys')
             else mkdir_exist_ok fsys' name)
      else mkdir_exist_ok fsys name)"
  by pat_completeness auto
termination
proof (relation "measure (\<lambda>(fsys, name). length name)")
  show "wf (measure (\<lambda>(fsys :: filesystem, name :: string). length name))"
    by simp
next
  fix fsys :: filesystem and name :: string
  assume "fst (makedirs_split name) \<noteq> [] \<and> snd (makedirs_split name) \<noteq> []
            \<and> \<not> os_path_exists fsys (fst (makedirs_split name))"
  then have tail: "snd (makedirs_split name) \<noteq> []"
    by simp
  have strip: "length (rstrip_sep s) \<le> length s" for s
    unfolding rstrip_sep_def using length_dropWhile_le [of "\<lambda>c. c = sep" "rev s"] by simp
  have head_le: "length (fst (os_path_split p)) \<le> length p" for p
  proof -
    let ?h = "rev (dropWhile (\<lambda>c. c \<noteq> sep) (rev p))"
    have "length ?h \<le> length p"
      using length_dropWhile_le [of "\<lambda>c. c \<noteq> sep" "rev p"] by simp
    moreover have "length (fst (os_path_split p)) \<le> length ?h"
      using strip [of ?h] by (simp add: os_path_split_def Let_def)
    ultimately show ?thesis by arith
  qed
  have head_less: "length (fst (os_path_split p)) < length p"
    if "snd (os_path_split p) \<noteq> []" for p
  proof -
    let ?h = "rev (dropWhile (\<lambda>c. c \<noteq> sep) (rev p))"
    let ?t = "rev (takeWhile (\<lambda>c. c \<noteq> sep) (rev p))"
    have "length (takeWhile (\<lambda>c. c \<noteq> sep) (rev p))
            + length (dropWhile (\<lambda>c. c \<noteq> sep) (rev p)) = length (rev p)"
      by (simp only: length_append [symmetric] takeWhile_dropWhile_id)
    then have total: "length ?t + length ?h = length p" by simp
    from that have "?t \<noteq> []" by (simp add: os_path_split_def Let_def)
    then have "0 < length ?t" by simp
    with total have "length ?h < length p" by arith
    moreover have "length (fst (os_path_split p)) \<le> length ?h"
      using strip [of ?h] by (simp add: os_path_split_def Let_def)
    ultimately show ?thesis by arith
  qed
  have "length (fst (makedirs_split name)) < length name"
  proof (cases "snd (os_path_split name) = []")
    case True
    with tail have "snd (os_path_split (fst (os_path_split name))) \<noteq> []"
      by (simp add: makedirs_split_def)
    then have "length (fst (os_path_split (fst (os_path_split name))))
                 < length (fst (os_path_split name))"
      by (rule head_less)
    with head_le [of name] True show ?thesis
      by (simp add: makedirs_split_def)
  next
    case False
    then show ?thesis using head_less [of name] by (simp add: makedirs_split_def)
  qed
  then show "((fsys, fst (makedirs_split name)), (fsys, name))
               \<in> measure (\<lambda>(fsys, name). length name)"
    by simp
qed

declare os_makedirs.simps [simp del]

section \<open>\<open>magic_pdf/pipe/operators.py\<close>\<close>

text \<open>
  A \<open>PipeResult\<close> holds the analysis result \<open>_pipe_res\<close> and the dataset \<open>_dataset\<close>.
\<close>

record ('d, 'p) PipeResult =
  pipe_res :: pyval
  dataset :: "('d, 'p) Dataset"

text \<open>
  What an attribute lookup on a \<open>PipeResult\<close> can yield. The class has no
  \<open>__getattr__\<close>, so a name that is neither a field, a method nor inherited raises
  \<open>AttributeError\<close>.
\<close>

datatype ('d, 'p) PipeResult_attr =
    AttrPipeRes pyval
  | AttrDataset "('d, 'p) Dataset"
  | AttrMethod string
  | AttrInherited string

definition PipeResult_methods :: "string list" where
  "PipeResult_methods =
     [''__init__'', ''dump_md'', ''dump_content_list'', ''dump_middle_json'',
      ''draw_layout'', ''draw_span'', ''draw_line_sort'', ''get_compress_pdf_mid_data'']"

definition PipeResult_lookup ::
  "string list \<Rightarrow> ('d, 'p) PipeResult \<Rightarrow> string \<Rightarrow> error + ('d, 'p) PipeResult_attr" where
  "PipeResult_lookup base self name =
     (if name = ''_pipe_res'' then Inr (AttrPipeRes (pipe_res self))
      else if name = ''_dataset'' then Inr (AttrDataset (dataset self))
      else if name \<in> set PipeResult_methods then Inr (AttrMethod name)
      else if name \<in> set base then Inr (AttrInherited name)
      else Inl AttributeError)"

text \<open>
  The collaborators \<open>operators.py\<close> imports: the content assembler \<open>union_make\<close>,
  \<open>json.dumps\<close> with its keyword arguments \<open>ensure_ascii\<close> and \<open>indent\<close>, the three
  renderers of \<open>draw_bbox\<close> and \<open>JsonCompressor.compress_json\<close>. Each can raise. The
  writer is the argument of the export operations.
\<close>

record ('d, 'p) collaborators =
  union_make :: "pyval \<Rightarrow> MakeMode \<Rightarrow> DropMode \<Rightarrow> string \<Rightarrow> error + pyval"
  json_dumps :: "pyval \<Rightarrow> bool \<Rightarrow> nat \<Rightarrow> error + string"
  draw_layout_bbox :: "pyval \<Rightarrow> bytes \<Rightarrow> string \<Rightarrow> string \<Rightarrow> error + unit"
  draw_span_bbox :: "pyval \<Rightarrow> bytes \<Rightarrow> string \<Rightarrow> string \<Rightarrow> error + unit"
  draw_line_sort_bbox :: "pyval \<Rightarrow> bytes \<Rightarrow> string \<Rightarrow> string \<Rightarrow> error + unit"
  compress_json :: "('d, 'p) PipeResult_attr \<Rightarrow> error + string"

record DataWriter =
  write_string :: "string \<Rightarrow> pyval \<Rightarrow> error + unit"

definition writer_write_string ::
  "DataWriter \<Rightarrow> string \<Rightarrow> pyval \<Rightarrow> world \<Rightarrow> (error + unit) \<times> world" where
  "writer_write_string writer file_path content w =
     (write_string writer file_path content,
      w\<lparr>log := log w @ [WriteString file_path content]\<rparr>)"

text \<open>
  \<open>dump_md\<close>; the two keyword parameters default to \<open>DropMode.WHOLE_PDF\<close> and
  \<open>MakeMode.MM_MD\<close> when the caller leaves them out (\<open>None\<close> here).
\<close>

definition dump_md ::
  "('d, 'p) collaborators \<Rightarrow> ('d, 'p) PipeResult \<Rightarrow> DataWriter \<Rightarrow> string \<Rightarrow> string
     \<Rightarrow> DropMode option \<Rightarrow> MakeMode option \<Rightarrow> world \<Rightarrow> (error + unit) \<times> world" where
  "dump_md env self writer file_path img_dir_or_bucket_prefix drop_mode_arg md_make_mode_arg w =
     (let drop_mode = (case drop_mode_arg of None \<Rightarrow> WHOLE_PDF | Some m \<Rightarrow> m);
          md_make_mode = (case md_make_mode_arg of None \<Rightarrow> MM_MD | Some m \<Rightarrow> m)
      in case getitem_str (pipe_res self) ''pdf_info'' of
           Inl e \<Rightarrow> (Inl e, w)
         | Inr pdf_info_list \<Rightarrow>
             (let w1 = w\<lparr>log := log w @
                        [UnionMake pdf_info_list md_make_mode drop_mode img_dir_or_bucket_prefix]\<rparr>
              in case union_make env pdf_info_list md_make_mode drop_mode
                        img_dir_or_bucket_prefix of
                   Inl e \<Rightarrow> (Inl e, w1)
                 | Inr md_content \<Rightarrow> writer_write_string writer file_path md_content w1))"

definition dump_content_list ::
  "('d, 'p) collaborators \<Rightarrow> ('d, 'p) PipeResult \<Rightarrow> DataWriter \<Rightarrow> string \<Rightarrow> string
     \<Rightarrow> world \<Rightarrow> (error + unit) \<times> world" where
  "dump_content_list env self writer file_path image_dir_or_bucket_prefix w =
     (case getitem_str (pipe_res self) ''pdf_info'' of
        Inl e \<Rightarrow> (Inl e, w)
      | Inr pdf_info_list \<Rightarrow>
          (let w1 = w\<lparr>log := log w @
                     [UnionMake pdf_info_list STANDARD_FORMAT NONE image_dir_or_bucket_prefix]\<rparr>
           in case union_make env pdf_info_list STANDARD_FORMAT NONE
                     image_dir_or_bucket_prefix of
                Inl e \<Rightarrow> (Inl e, w1)
              | Inr content_list \<Rightarrow>
                  (case json_dumps env content_list False 4 of
                     Inl e \<Rightarrow> (Inl e, w1)
                   | Inr text \<Rightarrow> writer_write_string writer file_path (PStr text) w1)))"

definition dump_middle_json ::
  "('d, 'p) collaborators \<Rightarrow> ('d, 'p) PipeResult \<Rightarrow> DataWriter \<Rightarrow> string
     \<Rightarrow> world \<Rightarrow> (error + unit) \<times> world" where
  "dump_middle_json env self writer file_path w =
     (case json_dumps env (pipe_res self) False 4 of
        Inl e \<Rightarrow> (Inl e, w)
      | Inr text \<Rightarrow> writer_write_string writer file_path (PStr text) w)"

text \<open>
  The three overlay renderers: take the directory and the file name of the path, create
  the directory when \<open>os.path.exists\<close> does not find it, look \<open>pdf_info\<close> up, and call
  the renderer with the dataset's \<open>data_bits()\<close>.
\<close>

definition draw_layout ::
  "('d, 'p) collaborators \<Rightarrow> ('d, 'p) PipeResult \<Rightarrow> string \<Rightarrow> world
     \<Rightarrow> (error + unit) \<times> world" where
  "draw_layout env self file_path w =
     (let dir_name = os_path_dirname file_path;
          base_name = os_path_basename file_path;
          made = (if \<not> os_path_exists (fs w) dir_name then os_makedirs (fs w) dir_name
                  else (Inr (), fs w));
          w1 = w\<lparr>fs := snd made\<rparr>
      in case fst made of
           Inl e \<Rightarrow> (Inl e, w1)
         | Inr u \<Rightarrow>
             (case getitem_str (pipe_res self) ''pdf_info'' of
                Inl e \<Rightarrow> (Inl e, w1)
              | Inr pdf_info \<Rightarrow>
                  (draw_layout_bbox env pdf_info (data_bits (dataset self)) dir_name base_name,
                   w1\<lparr>log := log w1 @
                     [DrawLayoutBbox pdf_info (data_bits (dataset self)) dir_name base_name]\<rparr>)))"

definition draw_span ::
  "('d, 'p) collaborators \<Rightarrow> ('d, 'p) PipeResult \<Rightarrow> string \<Rightarrow> world
     \<Rightarrow> (error + unit) \<times> world" where
  "draw_span env self file_path w =
     (let dir_name = os_path_dirname file_path;
          base_name = os_path_basename file_path;
          made = (if \<not> os_path_exists (fs w) dir_name then os_makedirs (fs w) dir_name
                  else (Inr (), fs w));
          w1 = w\<lparr>fs := snd made\<rparr>
      in case fst made of
           Inl e \<Rightarrow> (Inl e, w1)
         | Inr u \<Rightarrow>
             (case getitem_str (pipe_res self) ''pdf_info'' of
                Inl e \<Rightarrow> (Inl e, w1)
              | Inr pdf_info \<Rightarrow>
                  (draw_span_bbox env pdf_info (data_bits (dataset self)) dir_name base_name,
                   w1\<lparr>log := log w1 @
                     [DrawSpanBbox pdf_info (data_bits (dataset self)) dir_name base_name]\<rparr>)))"

definition draw_line_sort ::
  "('d, 'p) collaborators \<Rightarrow> ('d, 'p) PipeResult \<Rightarrow> string \<Rightarrow> world
     \<Rightarrow> (error + unit) \<times> world" where
  "draw_line_sort env self file_path w =
     (let dir_name = os_path_dirname file_path;
          base_name = os_path_basename file_path;
          made = (if \<not> os_path_exists (fs w) dir_name then os_makedirs (fs w) dir_name
                  else (Inr (), fs w));
          w1 = w\<lparr>fs := snd made\<rparr>
      in case fst made of
           Inl e \<Rightarrow> (Inl e, w1)
         | Inr u \<Rightarrow>
             (case getitem_str (pipe_res self) ''pdf_info'' of
                Inl e \<Rightarrow> (Inl e, w1)
              | Inr pdf_info \<Rightarrow>
                  (draw_line_sort_bbox env pdf_info (data_bits (dataset self)) dir_name
                     base_name,
                   w1\<lparr>log := log w1 @
                     [DrawLineSortBbox pdf_info (data_bits (dataset self)) dir_name
                        base_name]\<rparr>)))"

text \<open>
  \<open>get_compress_pdf_mid_data\<close> reads the attribute \<open>pdf_mid_data\<close> of the
  \<open>PipeResult\<close> and passes it to the compressor.
\<close>

definition get_compress_pdf_mid_data ::
  "string list \<Rightarrow> ('d, 'p) collaborators \<Rightarrow> ('d, 'p) PipeResult \<Rightarrow> world
     \<Rightarrow> (error + string) \<times> world" where
  "get_compress_pdf_mid_data base env self w =
     (case PipeResult_lookup base self ''pdf_mid_data'' of
        Inl e \<Rightarrow> (Inl e, w)
      | Inr pdf_mid_data \<Rightarrow>
          (compress_json env pdf_mid_data, w\<lparr>log := log w @ [CompressJson]\<rparr>))"

section \<open>Concrete inputs\<close>

text \<open>
  The attribute names CPython 3 resolves on every instance of a plain class (those of
  \<open>object\<close>, and \<open>__dict__\<close>, \<open>__module__\<close> and \<open>__weakref__\<close>): an instance of the
  parameter \<open>base\<close> of the two attribute lookups.
\<close>

definition object_attrs :: "string list" where
  "object_attrs =
     [''__class__'', ''__delattr__'', ''__dict__'', ''__dir__'', ''__doc__'', ''__eq__'',
      ''__format__'', ''__ge__'', ''__getattribute__'', ''__getstate__'', ''__gt__'',
      ''__hash__'', ''__init_subclass__'', ''__le__'', ''__lt__'', ''__module__'',
      ''__ne__'', ''__new__'', ''__reduce__'', ''__reduce_ex__'', ''__repr__'',
      ''__setattr__'', ''__sizeof__'', ''__str__'', ''__subclasshook__'', ''__weakref__'']"

text \<open>
  A rendering library for the examples: documents are their bytes, a document has one
  page per byte, and the conversion of an image puts the byte \<open>0x25\<close> (the \<open>%\<close> that
  starts a PDF) in front of it. \<open>starts_paged\<close> recognises bytes that start so.
\<close>

definition example_fitz :: "(bytes, nat) fitz" where
  "example_fitz =
     \<lparr>open_pdf = (\<lambda>bits. Inr bits), open_stream = (\<lambda>bits. Inr bits),
      convert_to_pdf = (\<lambda>img. Inr (0x25 # img)),
      pages = (\<lambda>doc. [0 ..< length doc])\<rparr>"

definition starts_paged :: "bytes \<Rightarrow> bool" where
  "starts_paged bits = (take 1 bits = [0x25])"

text \<open>
  The direct dataset of the two bytes \<open>0x25 0x50\<close>, the converted dataset of the image
  bytes \<open>0x89 0x50\<close>, and a page table in which a page has the single attribute
  \<open>number\<close>.
\<close>

definition two_pages :: "(bytes, nat) Dataset" where
  "two_pages =
     PymuDocDataset
       \<lparr>raw_fitz = [0x25, 0x50], records = [Doc 0, Doc 1],
        data_bits_field = [0x25, 0x50], raw_data = [0x25, 0x50]\<rparr>"

definition converted_image :: "(bytes, nat) Dataset" where
  "converted_image =
     ImageDataset
       \<lparr>raw_fitz = [0x25, 0x89, 0x50], records = [Doc 0, Doc 1, Doc 2],
        data_bits_field = [0x25, 0x89, 0x50], raw_data = [0x89, 0x50]\<rparr>"


definition file_world :: world where
  "file_world = \<lparr>fs = (\<lambda>p. if p = ''afile'' then Some File else None), log = []\<rparr>"

definition example_page_attrs :: "nat \<Rightarrow> string \<Rightarrow> int option" where
  "example_page_attrs page name = (if name = ''number'' then Some (int page) else None)"

text \<open>
  Collaborators for the examples: the assembler returns an empty content list,
  \<open>json.dumps\<close> is given on the empty list and the empty dictionary (where it returns
  \<open>[]\<close> and \<open>{}\<close> whatever the indentation), the renderers and the writer succeed.
\<close>

definition example_json_dumps :: "pyval \<Rightarrow> bool \<Rightarrow> nat \<Rightarrow> error + string" where
  "example_json_dumps v ensure_ascii indent =
     (if v = PList [] then Inr ''[]''
      else if v = PDict [] then Inr ''{}''
      else Inl (External ''json''))"

definition example_env :: "(bytes, nat) collaborators" where
  "example_env =
     \<lparr>union_make = (\<lambda>pdf_info mode drop prefix. Inr (PList [])),
      json_dumps = example_json_dumps,
      draw_layout_bbox = (\<lambda>pdf_info bits dir_name base_name. Inr ()),
      draw_span_bbox = (\<lambda>pdf_info bits dir_name base_name. Inr ()),
      draw_line_sort_bbox = (\<lambda>pdf_info bits dir_name base_name. Inr ()),
      compress_json = (\<lambda>v. Inr [])\<rparr>"

definition example_writer :: DataWriter where
  "example_writer = \<lparr>write_string = (\<lambda>file_path content. Inr ())\<rparr>"

definition empty_world :: world where
  "empty_world = \<lparr>fs = (\<lambda>p. None), log = []\<rparr>"

text \<open>
  Two results for the dataset \<open>two_pages\<close>: one with an empty \<open>pdf_info\<close> list, one
  that is a dictionary without \<open>pdf_info\<close>.
\<close>

definition result_with_pdf_info :: "(bytes, nat) PipeResult" where
  "result_with_pdf_info = \<lparr>pipe_res = PDict [(''pdf_info'', PList [])], dataset = two_pages\<rparr>"

definition result_without_pdf_info :: "(bytes, nat) PipeResult" where
  "result_without_pdf_info = \<lparr>pipe_res = PDict [], dataset = two_pages\<rparr>"

section \<open>Page lookup\<close>

lemma list_getitem_cases:
  "list_getitem xs i =
     (if 0 \<le> i \<and> i < int (length xs) then Inr (xs ! nat i)
      else if - int (length xs) \<le> i \<and> i < 0 then Inr (xs ! nat (i + int (length xs)))
      else Inl IndexError)"
  by (simp add: list_getitem_def)

lemma get_page_is_getitem: "get_page d i = list_getitem (Dataset_iter d) i"
  by (cases d) (simp_all add: PymuDocDataset_get_page_def ImageDataset_get_page_def)

lemma len_is_length: "len d = length (Dataset_iter d)"
  by (cases d) (simp_all add: PymuDocDataset_len_def ImageDataset_len_def)

text \<open>
  C1, as the code has it. For a dataset of either class with \<open>n\<close> pages, \<open>get_page(i)\<close>
  returns the page at index \<open>i\<close> when \<open>0 \<le> i < n\<close>, returns the page at index \<open>n + i\<close>
  when \<open>-n \<le> i < 0\<close> (the list is indexed the way Python indexes lists), and raises
  \<open>IndexError\<close> for every other index; so \<open>get_page(n)\<close> fails, and \<open>get_page(-1)\<close>
  fails only on an empty dataset.
\<close>

theorem get_page_python_indexing:
  "get_page d i =
     (if 0 \<le> i \<and> i < int (len d) then Inr (Dataset_iter d ! nat i)
      else if - int (len d) \<le> i \<and> i < 0 then Inr (Dataset_iter d ! nat (int (len d) + i))
      else Inl IndexError)"
proof -
  have "get_page d i = list_getitem (Dataset_iter d) i"
    by (rule get_page_is_getitem)
  also have "\<dots> =
     (if 0 \<le> i \<and> i < int (length (Dataset_iter d)) then Inr (Dataset_iter d ! nat i)
      else if - int (length (Dataset_iter d)) \<le> i \<and> i < 0
        then Inr (Dataset_iter d ! nat (i + int (length (Dataset_iter d))))
      else Inl IndexError)"
    by (rule list_getitem_cases)
  finally show ?thesis
    by (simp add: len_is_length add.commute)
qed

text \<open>
  C1, as the spec states it, fails: on the two-page dataset \<open>get_page(-1)\<close> does not
  raise, it returns the last page.
\<close>

theorem get_page_minus_one_counterexample:
  "len two_pages = 2 \<and> get_page two_pages (- 1) = Inr (Doc 1)"
  by (simp add: two_pages_def PymuDocDataset_len_def PymuDocDataset_get_page_def
        list_getitem_def)

section \<open>Methods, classification, bytes and \<open>apply\<close>\<close>

text \<open>
  C4. A \<open>PymuDocDataset\<close> supports exactly OCR and text extraction, an \<open>ImageDataset\<close>
  exactly OCR.
\<close>

theorem supported_methods_by_variant:
  "set (supported_methods (PymuDocDataset s)) = {OCR, TXT}
   \<and> set (supported_methods (ImageDataset s')) = {OCR}"
  by (simp add: PymuDocDataset_supported_methods_def ImageDataset_supported_methods_def)

text \<open>
  C5. \<open>classify()\<close> on an \<open>ImageDataset\<close> returns OCR and leaves the world as it was:
  the classification collaborator is not called, whatever it would have answered or
  raised. On a \<open>PymuDocDataset\<close> it returns what the collaborator returns on the
  dataset's \<open>data_bits()\<close>, and exactly that one call is recorded.
\<close>

theorem classify_by_variant:
  "classify classify_fn (ImageDataset s) w = (Inr OCR, w)
   \<and> classify classify_fn (PymuDocDataset s') w =
       (classify_fn (data_bits (PymuDocDataset s')),
        w\<lparr>log := log w @ [Classify (data_bits (PymuDocDataset s'))]\<rparr>)"
proof
  show "classify classify_fn (ImageDataset s) w = (Inr OCR, w)"
    by (simp add: ImageDataset_classify_def)
next
  show "classify classify_fn (PymuDocDataset s') w =
       (classify_fn (data_bits (PymuDocDataset s')),
        w\<lparr>log := log w @ [Classify (data_bits (PymuDocDataset s'))]\<rparr>)"
    by (simp add: PymuDocDataset_classify_def PymuDocDataset_data_bits_def)
qed

lemma PymuDocDataset_init_fields:
  assumes "PymuDocDataset_init fz b = Inr d"
  obtains doc where "open_pdf fz b = Inr doc"
    and "d = PymuDocDataset \<lparr>raw_fitz = doc, records = map Doc (pages fz doc),
                 data_bits_field = b, raw_data = b\<rparr>"
  using assms by (auto simp: PymuDocDataset_init_def split: sum.splits)

lemma ImageDataset_init_fields:
  assumes "ImageDataset_init fz b = Inr d"
  obtains img pdf_bytes doc where "open_stream fz b = Inr img"
    and "convert_to_pdf fz img = Inr pdf_bytes" and "open_pdf fz pdf_bytes = Inr doc"
    and "d = ImageDataset \<lparr>raw_fitz = doc, records = map Doc (pages fz doc),
                 data_bits_field = pdf_bytes, raw_data = b\<rparr>"
  using assms by (auto simp: ImageDataset_init_def split: sum.splits)

text \<open>
  C6. A \<open>PymuDocDataset\<close> built from bytes \<open>b\<close> has \<open>data_bits()\<close> equal to \<open>b\<close>. An
  \<open>ImageDataset\<close> built from \<open>b\<close> has \<open>data_bits()\<close> equal to what \<open>convert_to_pdf\<close>
  returned for the opened image; when \<open>b\<close> is image bytes and not a paged document,
  and the conversion returns paged-document bytes, these differ from \<open>b\<close>, so the
  accessor does not return the original image bytes.
\<close>

theorem data_bits_after_construction:
  "(PymuDocDataset_init fz b = Inr d \<longrightarrow> data_bits d = b)
   \<and> (ImageDataset_init fz image_bits = Inr d' \<and> \<not> paged image_bits
        \<and> (\<forall>img pdf_bytes.
              open_stream fz image_bits = Inr img \<and> convert_to_pdf fz img = Inr pdf_bytes
              \<longrightarrow> paged pdf_bytes)
       \<longrightarrow> (\<exists>img. open_stream fz image_bits = Inr img
                  \<and> convert_to_pdf fz img = Inr (data_bits d'))
           \<and> data_bits d' \<noteq> image_bits)"
proof (intro conjI impI)
  assume "PymuDocDataset_init fz b = Inr d"
  then show "data_bits d = b"
    by (elim PymuDocDataset_init_fields) (simp add: PymuDocDataset_data_bits_def)
next
  assume a: "ImageDataset_init fz image_bits = Inr d' \<and> \<not> paged image_bits
     \<and> (\<forall>img pdf_bytes.
           open_stream fz image_bits = Inr img \<and> convert_to_pdf fz img = Inr pdf_bytes
           \<longrightarrow> paged pdf_bytes)"
  then obtain img pdf_bytes where o: "open_stream fz image_bits = Inr img"
    and c: "convert_to_pdf fz img = Inr pdf_bytes" and bits: "data_bits d' = pdf_bytes"
    by (elim conjE ImageDataset_init_fields) (simp add: ImageDataset_data_bits_def)
  from o c bits
  show "\<exists>img. open_stream fz image_bits = Inr img
          \<and> convert_to_pdf fz img = Inr (data_bits d')"
    by auto
  from a o c have "paged pdf_bytes" by blast
  with a bits show "data_bits d' \<noteq> image_bits" by auto
qed

theorem data_bits_after_construction_witness:
  "PymuDocDataset_init example_fitz [0x25, 0x50] = Inr two_pages
   \<and> data_bits two_pages = [0x25, 0x50]
   \<and> ImageDataset_init example_fitz [0x89, 0x50] = Inr converted_image
   \<and> \<not> starts_paged [0x89, 0x50]
   \<and> data_bits converted_image = [0x25, 0x89, 0x50]
   \<and> data_bits converted_image \<noteq> [0x89, 0x50]"
proof -
  have p: "PymuDocDataset_init example_fitz [0x25, 0x50] = Inr two_pages"
    by (simp add: PymuDocDataset_init_def example_fitz_def two_pages_def)
  have i: "ImageDataset_init example_fitz [0x89, 0x50] = Inr converted_image"
    by (simp add: ImageDataset_init_def example_fitz_def converted_image_def)
  have n: "\<not> starts_paged [0x89, 0x50]"
    by (simp add: starts_paged_def)
  have c: "\<forall>img pdf_bytes. open_stream example_fitz [0x89, 0x50] = Inr img
             \<and> convert_to_pdf example_fitz img = Inr pdf_bytes \<longrightarrow> starts_paged pdf_bytes"
    by (auto simp: example_fitz_def starts_paged_def)
  have v: "data_bits converted_image = [0x25, 0x89, 0x50]"
    by (simp add: converted_image_def ImageDataset_data_bits_def)
  from data_bits_after_construction
         [of example_fitz "[0x25, 0x50]" two_pages "[0x89, 0x50]" converted_image starts_paged]
       p i n c v
  show ?thesis by blast
qed




section \<open>Attribute forwarding of the page handle\<close>

text \<open>
  C10. For a name that is not the field \<open>_doc\<close>, not a method of \<open>Doc\<close> and not
  inherited, the lookup on a page handle returns the page's attribute when the page has
  one of that name, and returns \<open>None\<close> when the page has none: it never raises
  \<open>AttributeError\<close>.
\<close>

theorem doc_attribute_fallback:
  assumes "name \<noteq> ''_doc''" and "name \<notin> set Doc_methods" and "name \<notin> set base"
  shows "Doc_lookup base attrs self name =
           (case attrs (get_doc self) name of
              Some v \<Rightarrow> Inr (Forwarded v)
            | None \<Rightarrow> Inr NoneValue)"
proof -
  from assms have "Doc_lookup base attrs self name = Doc_getattr_hook attrs self name"
    by (simp add: Doc_lookup_def)
  also have "\<dots> = (case attrs (get_doc self) name of
                      Some v \<Rightarrow> Inr (Forwarded v)
                    | None \<Rightarrow> Inr NoneValue)"
    by (simp add: Doc_getattr_hook_def hasattr_def getattr_def split: option.splits)
  finally show ?thesis .
qed

theorem doc_attribute_fallback_witness:
  "Doc_lookup object_attrs example_page_attrs (Doc 7) ''number'' = Inr (Forwarded 7)
   \<and> Doc_lookup object_attrs example_page_attrs (Doc 7) ''rotation'' = Inr NoneValue"
proof -
  have n: "''number'' \<noteq> ''_doc'' \<and> ''number'' \<notin> set Doc_methods
            \<and> ''number'' \<notin> set object_attrs"
    by (simp add: Doc_methods_def object_attrs_def)
  have r: "''rotation'' \<noteq> ''_doc'' \<and> ''rotation'' \<notin> set Doc_methods
            \<and> ''rotation'' \<notin> set object_attrs"
    by (simp add: Doc_methods_def object_attrs_def)
  from n r
    doc_attribute_fallback [of "''number''" object_attrs example_page_attrs "Doc 7"]
    doc_attribute_fallback [of "''rotation''" object_attrs example_page_attrs "Doc 7"]
  show ?thesis by (simp add: example_page_attrs_def)
qed

section \<open>The export operations\<close>

text \<open>
  C2. \<open>get_compress_pdf_mid_data\<close> reads \<open>self.pdf_mid_data\<close>, an attribute that
  \<open>PipeResult\<close> neither sets nor defines: for every result, dataset and compressor the
  call raises \<open>AttributeError\<close>, and the compressor is not reached.
\<close>

theorem compress_raises_attribute_error:
  "get_compress_pdf_mid_data object_attrs env self w = (Inl AttributeError, w)"
proof -
  have "PipeResult_lookup object_attrs self ''pdf_mid_data'' = Inl AttributeError"
    by (simp add: PipeResult_lookup_def PipeResult_methods_def object_attrs_def)
  then show ?thesis
    by (simp add: get_compress_pdf_mid_data_def)
qed

lemma missing_key: "map_of kvs key = None \<Longrightarrow> getitem_str (PDict kvs) key = Inl KeyError"
  by simp

lemma draw_layout_without_pdf_info:
  assumes "getitem_str (pipe_res self) ''pdf_info'' = Inl KeyError"
  shows "draw_layout env self file_path w =
           (if os_path_exists (fs w) (os_path_dirname file_path) then (Inl KeyError, w)
            else (case fst (os_makedirs (fs w) (os_path_dirname file_path)) of
                    Inl e \<Rightarrow> Inl e
                  | Inr u \<Rightarrow> Inl KeyError,
                  w\<lparr>fs := snd (os_makedirs (fs w) (os_path_dirname file_path))\<rparr>))"
  using assms by (simp add: draw_layout_def Let_def split: sum.splits)

lemma draw_span_without_pdf_info:
  assumes "getitem_str (pipe_res self) ''pdf_info'' = Inl KeyError"
  shows "draw_span env self file_path w =
           (if os_path_exists (fs w) (os_path_dirname file_path) then (Inl KeyError, w)
            else (case fst (os_makedirs (fs w) (os_path_dirname file_path)) of
                    Inl e \<Rightarrow> Inl e
                  | Inr u \<Rightarrow> Inl KeyError,
                  w\<lparr>fs := snd (os_makedirs (fs w) (os_path_dirname file_path))\<rparr>))"
  using assms by (simp add: draw_span_def Let_def split: sum.splits)

lemma draw_line_sort_without_pdf_info:
  assumes "getitem_str (pipe_res self) ''pdf_info'' = Inl KeyError"
  shows "draw_line_sort env self file_path w =
           (if os_path_exists (fs w) (os_path_dirname file_path) then (Inl KeyError, w)
            else (case fst (os_makedirs (fs w) (os_path_dirname file_path)) of
                    Inl e \<Rightarrow> Inl e
                  | Inr u \<Rightarrow> Inl KeyError,
                  w\<lparr>fs := snd (os_makedirs (fs w) (os_path_dirname file_path))\<rparr>))"
  using assms by (simp add: draw_line_sort_def Let_def split: sum.splits)

lemma prepared_outcome:
  assumes "r =
           (if ex then (Inl KeyError, w)
            else (case fst made of Inl e \<Rightarrow> Inl e | Inr u \<Rightarrow> Inl KeyError,
                  w\<lparr>fs := snd made\<rparr>))"
  shows "(\<exists>e. fst r = Inl e)
       \<and> log (snd r) = log w
       \<and> (ex \<or> fst made = Inr () \<longrightarrow> fst r = Inl KeyError)
       \<and> (\<not> ex \<and> fst made = Inl e' \<longrightarrow> fst r = Inl e')
       \<and> (ex \<longrightarrow> snd r = w)
       \<and> (\<not> ex \<longrightarrow> snd r = w\<lparr>fs := snd made\<rparr>)"
  using assms by (cases "fst made") auto

text \<open>
  C3, as the code has it. When the analysis result is a dictionary without \<open>pdf_info\<close>:
  \<open>dump_md\<close> and \<open>dump_content_list\<close> raise \<open>KeyError\<close> and leave the world as it was
  (neither the assembler nor the writer is called). Each of the three overlay renderers
  raises an error without calling its rendering collaborator: \<open>KeyError\<close> when the
  directory exists or \<open>os.makedirs\<close> succeeds, and the very error of \<open>os.makedirs\<close>
  when the directory is missing and \<open>os.makedirs\<close> fails; the world afterwards is the
  one before when the directory existed, and otherwise the one before with the file
  system as \<open>os.makedirs\<close> left it. \<open>dump_middle_json\<close> does not look \<open>pdf_info\<close> up,
  and when \<open>json.dumps\<close> returns a text it passes that text to the writer and returns
  what the writer returns.
\<close>

theorem exports_without_pdf_info:
  assumes "pipe_res self = PDict kvs" and "map_of kvs ''pdf_info'' = None"
  shows "dump_md env self writer file_path prefix drop_mode md_make_mode w = (Inl KeyError, w)
       \<and> dump_content_list env self writer file_path prefix w = (Inl KeyError, w)
       \<and> (\<exists>e. fst (draw_layout env self file_path w) = Inl e)
       \<and> log (snd (draw_layout env self file_path w)) = log w
       \<and> (\<exists>e. fst (draw_span env self file_path w) = Inl e)
       \<and> log (snd (draw_span env self file_path w)) = log w
       \<and> (\<exists>e. fst (draw_line_sort env self file_path w) = Inl e)
       \<and> log (snd (draw_line_sort env self file_path w)) = log w
       \<and> (os_path_exists (fs w) (os_path_dirname file_path)
            \<or> fst (os_makedirs (fs w) (os_path_dirname file_path)) = Inr ()
          \<longrightarrow> fst (draw_layout env self file_path w) = Inl KeyError
              \<and> fst (draw_span env self file_path w) = Inl KeyError
              \<and> fst (draw_line_sort env self file_path w) = Inl KeyError)
       \<and> (\<not> os_path_exists (fs w) (os_path_dirname file_path)
            \<and> fst (os_makedirs (fs w) (os_path_dirname file_path)) = Inl e
          \<longrightarrow> fst (draw_layout env self file_path w) = Inl e
              \<and> fst (draw_span env self file_path w) = Inl e
              \<and> fst (draw_line_sort env self file_path w) = Inl e)
       \<and> (os_path_exists (fs w) (os_path_dirname file_path)
          \<longrightarrow> snd (draw_layout env self file_path w) = w
              \<and> snd (draw_span env self file_path w) = w
              \<and> snd (draw_line_sort env self file_path w) = w)
       \<and> (\<not> os_path_exists (fs w) (os_path_dirname file_path)
          \<longrightarrow> snd (draw_layout env self file_path w)
                = w\<lparr>fs := snd (os_makedirs (fs w) (os_path_dirname file_path))\<rparr>
              \<and> snd (draw_span env self file_path w)
                = w\<lparr>fs := snd (os_makedirs (fs w) (os_path_dirname file_path))\<rparr>
              \<and> snd (draw_line_sort env self file_path w)
                = w\<lparr>fs := snd (os_makedirs (fs w) (os_path_dirname file_path))\<rparr>)
       \<and> (json_dumps env (pipe_res self) False 4 = Inr text
          \<longrightarrow> dump_middle_json env self writer file_path w =
                (write_string writer file_path (PStr text),
                 w\<lparr>log := log w @ [WriteString file_path (PStr text)]\<rparr>))"
proof -
  from assms have k: "getitem_str (pipe_res self) ''pdf_info'' = Inl KeyError"
    by (simp add: missing_key)
  have md: "dump_md env self writer file_path prefix drop_mode md_make_mode w = (Inl KeyError, w)"
    using k by (simp add: dump_md_def)
  have cl: "dump_content_list env self writer file_path prefix w = (Inl KeyError, w)"
    using k by (simp add: dump_content_list_def)
  have mj: "json_dumps env (pipe_res self) False 4 = Inr text
          \<longrightarrow> dump_middle_json env self writer file_path w =
                (write_string writer file_path (PStr text),
                 w\<lparr>log := log w @ [WriteString file_path (PStr text)]\<rparr>)"
    by (simp add: dump_middle_json_def writer_write_string_def)
  note la = prepared_outcome [OF draw_layout_without_pdf_info [OF k, of env file_path w], of e]
  note sp = prepared_outcome [OF draw_span_without_pdf_info [OF k, of env file_path w], of e]
  note ls = prepared_outcome [OF draw_line_sort_without_pdf_info [OF k, of env file_path w], of e]
  from md cl mj la sp ls show ?thesis by blast
qed

text \<open>
  C3, as the spec states it, fails for \<open>dump_middle_json\<close>: on the result without
  \<open>pdf_info\<close> it succeeds and hands the serialized result to the writer.
\<close>

theorem dump_middle_json_counterexample:
  "getitem_str (pipe_res result_without_pdf_info) ''pdf_info'' = Inl KeyError
   \<and> dump_middle_json example_env result_without_pdf_info example_writer ''out/middle.json''
       empty_world
     = (Inr (), empty_world\<lparr>log := [WriteString ''out/middle.json'' (PStr ''{}'')]\<rparr>)"
  by (simp add: result_without_pdf_info_def dump_middle_json_def example_env_def
        example_json_dumps_def example_writer_def writer_write_string_def empty_world_def)

lemma makedirs_out:
  "\<not> os_path_exists (fs empty_world) (os_path_dirname ''out/layout.pdf'')
   \<and> fst (os_makedirs (fs empty_world) (os_path_dirname ''out/layout.pdf'')) = Inr ()"
  by code_simp

lemma makedirs_under_file:
  "\<not> os_path_exists (fs file_world) (os_path_dirname ''afile/sub/layout.pdf'')
   \<and> fst (os_makedirs (fs file_world) (os_path_dirname ''afile/sub/layout.pdf''))
       = Inl NotADirectoryError"
  by code_simp

theorem exports_without_pdf_info_witness:
  "pipe_res result_without_pdf_info = PDict []
   \<and> dump_md example_env result_without_pdf_info example_writer ''out/doc.md'' ''images''
       None None empty_world = (Inl KeyError, empty_world)
   \<and> dump_content_list example_env result_without_pdf_info example_writer
       ''out/content_list.json'' ''images'' empty_world = (Inl KeyError, empty_world)
   \<and> fst (draw_layout example_env result_without_pdf_info ''out/layout.pdf'' empty_world)
       = Inl KeyError
   \<and> fst (draw_span example_env result_without_pdf_info ''out/layout.pdf'' empty_world)
       = Inl KeyError
   \<and> fst (draw_line_sort example_env result_without_pdf_info ''out/layout.pdf'' empty_world)
       = Inl KeyError
   \<and> log (snd (draw_layout example_env result_without_pdf_info ''out/layout.pdf''
         empty_world)) = log empty_world
   \<and> fst (draw_layout example_env result_without_pdf_info ''afile/sub/layout.pdf''
         file_world) = Inl NotADirectoryError
   \<and> fst (draw_span example_env result_without_pdf_info ''afile/sub/layout.pdf''
         file_world) = Inl NotADirectoryError
   \<and> fst (draw_line_sort example_env result_without_pdf_info ''afile/sub/layout.pdf''
         file_world) = Inl NotADirectoryError"
proof -
  have p: "pipe_res result_without_pdf_info = PDict []"
    by (simp add: result_without_pdf_info_def)
  have m: "map_of ([] :: (string \<times> pyval) list) ''pdf_info'' = None"
    by simp
  note inst = exports_without_pdf_info [OF p m, where env = example_env
    and writer = example_writer and prefix = "''images''" and drop_mode = None
    and md_make_mode = None]
  have md: "dump_md example_env result_without_pdf_info example_writer ''out/doc.md''
       ''images'' None None empty_world = (Inl KeyError, empty_world)"
    using inst [where file_path = "''out/doc.md''" and w = empty_world and e = KeyError]
    by simp
  have cl: "dump_content_list example_env result_without_pdf_info example_writer
       ''out/content_list.json'' ''images'' empty_world = (Inl KeyError, empty_world)"
    using inst [where file_path = "''out/content_list.json''" and w = empty_world
      and e = KeyError]
    by simp
  have out: "fst (draw_layout example_env result_without_pdf_info ''out/layout.pdf''
         empty_world) = Inl KeyError
     \<and> fst (draw_span example_env result_without_pdf_info ''out/layout.pdf'' empty_world)
         = Inl KeyError
     \<and> fst (draw_line_sort example_env result_without_pdf_info ''out/layout.pdf''
         empty_world) = Inl KeyError
     \<and> log (snd (draw_layout example_env result_without_pdf_info ''out/layout.pdf''
         empty_world)) = log empty_world"
    using inst [where file_path = "''out/layout.pdf''" and w = empty_world and e = KeyError]
      makedirs_out
    by simp
  have under: "fst (draw_layout example_env result_without_pdf_info ''afile/sub/layout.pdf''
         file_world) = Inl NotADirectoryError
     \<and> fst (draw_span example_env result_without_pdf_info ''afile/sub/layout.pdf''
         file_world) = Inl NotADirectoryError
     \<and> fst (draw_line_sort example_env result_without_pdf_info ''afile/sub/layout.pdf''
         file_world) = Inl NotADirectoryError"
    using inst [where file_path = "''afile/sub/layout.pdf''" and w = file_world
      and e = NotADirectoryError] makedirs_under_file
    by simp
  from p md cl out under show ?thesis by simp
qed

text \<open>
  C8. When the result has \<open>pdf_info\<close>, \<open>dump_content_list\<close> calls the assembler first,
  once, with \<open>pdf_info\<close>, \<open>MakeMode.STANDARD_FORMAT\<close>, \<open>DropMode.NONE\<close> and the image
  prefix, and the only other collaborator it can call is the writer, on the given path.
  When the assembler returns a content list and \<open>json.dumps\<close> with
  \<open>ensure_ascii=False\<close> and \<open>indent=4\<close> returns a text for it, that text is what the
  writer is given, and the writer's result is the result.
\<close>

theorem content_list_export:
  assumes "getitem_str (pipe_res self) ''pdf_info'' = Inr pdf_info"
  shows "(\<exists>rest. log (snd (dump_content_list env self writer file_path prefix w)) =
            log w @ UnionMake pdf_info STANDARD_FORMAT NONE prefix # rest
          \<and> (rest = [] \<or> (\<exists>text. rest = [WriteString file_path (PStr text)])))
       \<and> (union_make env pdf_info STANDARD_FORMAT NONE prefix = Inr content_list
            \<and> json_dumps env content_list False 4 = Inr text
          \<longrightarrow> dump_content_list env self writer file_path prefix w =
                (write_string writer file_path (PStr text),
                 w\<lparr>log := log w @ [UnionMake pdf_info STANDARD_FORMAT NONE prefix,
                                     WriteString file_path (PStr text)]\<rparr>))"
proof (intro conjI impI)
  show "\<exists>rest. log (snd (dump_content_list env self writer file_path prefix w)) =
            log w @ UnionMake pdf_info STANDARD_FORMAT NONE prefix # rest
          \<and> (rest = [] \<or> (\<exists>text. rest = [WriteString file_path (PStr text)]))"
    using assms
    by (auto simp: dump_content_list_def writer_write_string_def Let_def split: sum.splits)
next
  assume "union_make env pdf_info STANDARD_FORMAT NONE prefix = Inr content_list
            \<and> json_dumps env content_list False 4 = Inr text"
  with assms
  show "dump_content_list env self writer file_path prefix w =
                (write_string writer file_path (PStr text),
                 w\<lparr>log := log w @ [UnionMake pdf_info STANDARD_FORMAT NONE prefix,
                                     WriteString file_path (PStr text)]\<rparr>)"
    by (simp add: dump_content_list_def writer_write_string_def Let_def)
qed

theorem content_list_export_witness:
  "getitem_str (pipe_res result_with_pdf_info) ''pdf_info'' = Inr (PList [])
   \<and> dump_content_list example_env result_with_pdf_info example_writer
       ''out/content_list.json'' ''images'' empty_world
     = (Inr (),
        empty_world\<lparr>log := [UnionMake (PList []) STANDARD_FORMAT NONE ''images'',
                             WriteString ''out/content_list.json'' (PStr ''[]'')]\<rparr>)"
proof -
  have g: "getitem_str (pipe_res result_with_pdf_info) ''pdf_info'' = Inr (PList [])"
    by (simp add: result_with_pdf_info_def)
  have u: "union_make example_env (PList []) STANDARD_FORMAT NONE ''images'' = Inr (PList [])
           \<and> json_dumps example_env (PList []) False 4 = Inr ''[]''"
    by (simp add: example_env_def example_json_dumps_def)
  have l: "log empty_world = []"
    by (simp add: empty_world_def)
  from content_list_export [OF g, of example_env example_writer "''out/content_list.json''"
         "''images''" empty_world "PList []" "''[]''"] u g l
  show ?thesis by (simp add: example_writer_def)
qed

section \<open>Overlay paths without a directory\<close>

lemma split_no_sep:
  assumes "sep \<notin> set p"
  shows "os_path_split p = ([], p)"
proof -
  from assms have all: "\<forall>c\<in>set (rev p). c \<noteq> sep" by auto
  have tw: "takeWhile (\<lambda>c. c \<noteq> sep) (rev p) = rev p"
    using all by (simp only: takeWhile_eq_all_conv)
  have dw: "dropWhile (\<lambda>c. c \<noteq> sep) (rev p) = []"
    using all by (simp only: dropWhile_eq_Nil_conv)
  show ?thesis unfolding os_path_split_def Let_def tw dw by simp
qed

lemma makedirs_empty: "os_makedirs fsys [] = (Inl FileNotFoundError, fsys)"
proof -
  have s: "makedirs_split [] = ([], [])"
    by (simp add: makedirs_split_def os_path_split_def)
  show ?thesis
    by (subst os_makedirs.simps)
       (simp add: s mkdir_exist_ok_def os_mkdir_def os_path_isdir_def)
qed

lemma not_exists_empty: "\<not> os_path_exists fsys []"
  by (simp add: os_path_exists_def)

text \<open>
  C9. For a path without a slash, \<open>os.path.dirname\<close> is the empty string, which
  \<open>os.path.exists\<close> does not find and \<open>os.makedirs\<close> rejects: each of the three
  overlay renderers raises \<open>FileNotFoundError\<close> and leaves the world as it was, so
  neither \<open>pdf_info\<close> is looked up nor a rendering collaborator called, whatever the
  file system holds.
\<close>

theorem overlay_needs_directory_component:
  assumes "CHR ''/'' \<notin> set file_path"
  shows "os_path_dirname file_path = []
       \<and> draw_layout env self file_path w = (Inl FileNotFoundError, w)
       \<and> draw_span env self file_path w = (Inl FileNotFoundError, w)
       \<and> draw_line_sort env self file_path w = (Inl FileNotFoundError, w)"
proof -
  from assms have d: "os_path_dirname file_path = []"
    by (simp add: os_path_dirname_def split_no_sep sep_def)
  have m: "(if \<not> os_path_exists (fs w) [] then os_makedirs (fs w) [] else (Inr (), fs w))
           = (Inl FileNotFoundError, fs w)"
    by (simp add: not_exists_empty makedirs_empty)
  have "draw_layout env self file_path w = (Inl FileNotFoundError, w)"
    by (simp add: draw_layout_def d m)
  moreover have "draw_span env self file_path w = (Inl FileNotFoundError, w)"
    by (simp add: draw_span_def d m)
  moreover have "draw_line_sort env self file_path w = (Inl FileNotFoundError, w)"
    by (simp add: draw_line_sort_def d m)
  ultimately show ?thesis using d by simp
qed

theorem overlay_needs_directory_component_witness:
  "CHR ''/'' \<notin> set ''layout.pdf''
   \<and> draw_layout example_env result_with_pdf_info ''layout.pdf'' empty_world
       = (Inl FileNotFoundError, empty_world)
   \<and> draw_span example_env result_with_pdf_info ''layout.pdf'' empty_world
       = (Inl FileNotFoundError, empty_world)
   \<and> draw_line_sort example_env result_with_pdf_info ''layout.pdf'' empty_world
       = (Inl FileNotFoundError, empty_world)"
proof -
  have s: "CHR ''/'' \<notin> set ''layout.pdf''" by simp
  from overlay_needs_directory_component
         [OF s, of example_env result_with_pdf_info empty_world] s
  show ?thesis by blast
qed

end
